theory Spec2Isabelle
  imports Complex_Main
begin

section \<open>The Explore page (src/pages/Explore.tsx)\<close>

text \<open>
  The landmark of the Explore page, as the interface declares it. The identifier and the
  map coordinates are JavaScript numbers; the page only ever stores integers in them and
  compares identifiers with \<open>===\<close>, so they are modelled as \<open>int\<close>. The fields \<open>id\<close>,
  \<open>x\<close> and \<open>y\<close> are written \<open>id_lm\<close>, \<open>x_pos\<close> and \<open>y_pos\<close>.
\<close>

record Landmark =
  id_lm :: int
  name :: string
  x_pos :: int
  y_pos :: int
  discovered :: bool
  category :: string
  year :: string
  metersAway :: int

text \<open>The component state: one field for each \<open>useState\<close> hook, in the order of the source.\<close>

record ExploreState =
  selectedLandmark :: "Landmark option"
  showScanner :: bool
  landmarkToScan :: "Landmark option"
  showDetail :: bool
  landmarkToShow :: "Landmark option"
  showMuseum :: bool
  landmarks :: "Landmark list"

text \<open>The initial value of the \<open>landmarks\<close> hook (the name of the fifth landmark is
  written in ASCII).\<close>

definition initialLandmarks :: "Landmark list" where
  "initialLandmarks =
    [\<lparr>id_lm = 1, name = ''Nidaros Cathedral'', x_pos = 10, y_pos = 50, discovered = True,
       category = ''Historic'', year = ''1070'', metersAway = 100\<rparr>,
     \<lparr>id_lm = 2, name = ''Kristiansten Fortress'', x_pos = 89, y_pos = 45, discovered = True,
       category = ''Military'', year = ''1681'', metersAway = 300\<rparr>,
     \<lparr>id_lm = 3, name = ''Old Town Bridge'', x_pos = 62, y_pos = 14, discovered = False,
       category = ''Architecture'', year = ''1861'', metersAway = 50\<rparr>,
     \<lparr>id_lm = 4, name = ''Rockheim Museum'', x_pos = 30, y_pos = 60, discovered = False,
       category = ''Culture'', year = ''2010'', metersAway = 125\<rparr>,
     \<lparr>id_lm = 5, name = ''Stiftsgarden'', x_pos = 7, y_pos = 39, discovered = False,
       category = ''Royal'', year = ''1778'', metersAway = 500\<rparr>]"

definition initialState :: ExploreState where
  "initialState =
    \<lparr>selectedLandmark = None, showScanner = False, landmarkToScan = None,
     showDetail = False, landmarkToShow = None, showMuseum = False,
     landmarks = initialLandmarks\<rparr>"

text \<open>
  \<open>handleDiscoveryComplete\<close>: the functional update of \<open>setLandmarks\<close> maps over the
  previous list, and the two other setters close the scanner.
\<close>

definition markDiscovered :: "int \<Rightarrow> Landmark \<Rightarrow> Landmark" where
  "markDiscovered landmarkId landmark =
    (if id_lm landmark = landmarkId then landmark\<lparr>discovered := True\<rparr> else landmark)"

definition handleDiscoveryComplete :: "int \<Rightarrow> ExploreState \<Rightarrow> ExploreState" where
  "handleDiscoveryComplete landmarkId s =
    s\<lparr>landmarks := map (markDiscovered landmarkId) (landmarks s),
      showScanner := False,
      landmarkToScan := None\<rparr>"

text \<open>\<open>launchScanner\<close>: three setters.\<close>

definition launchScanner :: "Landmark \<Rightarrow> ExploreState \<Rightarrow> ExploreState" where
  "launchScanner landmark s =
    s\<lparr>landmarkToScan := Some landmark, showScanner := True, selectedLandmark := None\<rparr>"

text \<open>
  The click handler of the floating camera button: \<open>Array.prototype.find\<close> returns the
  first element that satisfies the predicate, or \<open>undefined\<close>; the scanner is launched
  only in the first case.
\<close>

definition cameraButtonClick :: "ExploreState \<Rightarrow> ExploreState" where
  "cameraButtonClick s =
    (case find (\<lambda>l. \<not> discovered l) (landmarks s) of
       Some undiscovered \<Rightarrow> launchScanner undiscovered s
     | None \<Rightarrow> s)"

text \<open>The scanner modal is rendered under \<open>showScanner && landmarkToScan\<close>.\<close>

definition scannerShown :: "ExploreState \<Rightarrow> bool" where
  "scannerShown s = (showScanner s \<and> landmarkToScan s \<noteq> None)"

section \<open>The client-side XP of the scanner (usage guide, XP Calculation)\<close>

text \<open>
  \<open>const xp = Math.floor(Math.random() * 50) + 50\<close>. The draw of \<open>Math.random()\<close> is a
  parameter: a number \<open>r\<close> with \<open>0 \<le> r < 1\<close>, taken as a real.
\<close>

definition xpOfDraw :: "real \<Rightarrow> int" where
  "xpOfDraw r = \<lfloor>r * 50\<rfloor> + 50"

section \<open>LocationService (API integration specification, GPS Implementation)\<close>

text \<open>
  JavaScript numbers are idealised as real numbers: finite values, no rounding.
  \<open>Math.atan2 y x\<close> is the angle of the point \<open>(x, y)\<close> in \<open>(-\<pi>, \<pi>]\<close>, and 0 at the origin.

  The idealisation matters for \<open>calculateDistance\<close>. Over the reals the term \<open>a\<close> lies in
  \<open>[0, 1]\<close> for all inputs. In IEEE doubles it can round to a value above 1 when the two
  points are nearly antipodal; then \<open>Math.sqrt(1 - a)\<close> is NaN and the source returns NaN,
  which the real-valued definition below does not show. The definition is therefore used
  only for the comparison of the proximity check and for instances at short distances,
  where \<open>a\<close> is far from 1.
\<close>

definition atan2 :: "real \<Rightarrow> real \<Rightarrow> real" where
  "atan2 y x =
    (if 0 < x then arctan (y / x)
     else if x < 0 then (if 0 \<le> y then arctan (y / x) + pi else arctan (y / x) - pi)
     else if 0 < y then pi / 2
     else if y < 0 then - (pi / 2)
     else 0)"

definition earthRadius :: real where
  "earthRadius = 6371000"

definition calculateDistance :: "real \<Rightarrow> real \<Rightarrow> real \<Rightarrow> real \<Rightarrow> real" where
  "calculateDistance lat1 lon1 lat2 lon2 =
    (let R = earthRadius;
         phi1 = lat1 * pi / 180;
         phi2 = lat2 * pi / 180;
         dphi = (lat2 - lat1) * pi / 180;
         dlambda = (lon2 - lon1) * pi / 180;
         a = sin (dphi / 2) * sin (dphi / 2) +
             cos phi1 * cos phi2 *
             sin (dlambda / 2) * sin (dlambda / 2);
         c = 2 * atan2 (sqrt a) (sqrt (1 - a))
     in R * c)"

definition isWithinRange :: "real \<Rightarrow> real \<Rightarrow> real \<Rightarrow> real \<Rightarrow> real \<Rightarrow> bool" where
  "isWithinRange userLat userLon landmarkLat landmarkLon maxDistance =
    (let distance = calculateDistance userLat userLon landmarkLat landmarkLon
     in distance \<le> maxDistance)"

text \<open>The default value of the parameter \<open>maxDistance\<close>.\<close>

definition defaultMaxDistance :: real where
  "defaultMaxDistance = 100"

text \<open>
  The landmark model of the API integration specification, with the fields the geo check
  and the reward rules read: \<open>id\<close>, \<open>location\<close>, \<open>discoveryRadius\<close>, \<open>difficulty\<close>,
  \<open>xpReward\<close> and \<open>badges\<close>. The content fields (name, category, year, address,
  description, images, facts) are not read by any function modelled here.
\<close>

datatype Difficulty = easy | medium | hard

record Location =
  latitude :: real
  longitude :: real

record GeolocationCoordinates = Location +
  accuracy :: real

record LandmarkModel =
  landmarkKey :: int
  location :: Location
  discoveryRadius :: real
  difficulty :: Difficulty
  xpReward :: real
  badgeIds :: "int list"

text \<open>
  The proximity check of the integration example:
  \<open>const isNearby = locationService.isWithinRange(position.coords.latitude,
  position.coords.longitude, landmark.location.latitude, landmark.location.longitude,
  landmark.discoveryRadius)\<close>. The accuracy of the fix is part of \<open>position.coords\<close>
  and is not passed on.
\<close>

definition isNearby :: "GeolocationCoordinates \<Rightarrow> LandmarkModel \<Rightarrow> bool" where
  "isNearby coords lm =
    isWithinRange (latitude coords) (longitude coords)
      (latitude (location lm)) (longitude (location lm)) (discoveryRadius lm)"

text \<open>
  The haversine formula as the textbooks state it, for comparison with
  \<open>calculateDistance\<close>: \<open>d = 2 R arcsin (sqrt (hav \<Delta>\<phi> + cos \<phi>1 cos \<phi>2 hav \<Delta>\<lambda>))\<close> with
  \<open>hav \<theta> = sin\<^sup>2 (\<theta> / 2)\<close>, on a sphere of radius 6,371,000 m.
\<close>

definition hav :: "real \<Rightarrow> real" where
  "hav \<theta> = (sin (\<theta> / 2))\<^sup>2"

definition radians :: "real \<Rightarrow> real" where
  "radians d = d * pi / 180"

definition haversineDistance :: "real \<Rightarrow> real \<Rightarrow> real \<Rightarrow> real \<Rightarrow> real" where
  "haversineDistance lat1 lon1 lat2 lon2 =
     2 * 6371000 *
     arcsin (sqrt (hav (radians lat2 - radians lat1) +
                   cos (radians lat1) * cos (radians lat2) * hav (radians lon2 - radians lon1)))"

text \<open>
  Test points for the proximity check: a fix at latitude 0, longitude 0 with a given
  accuracy, a landmark of radius 100 m on the same meridian at a given latitude, and the
  latitude that lies a given number of meters north of the equator.
\<close>

definition fixAt :: "real \<Rightarrow> GeolocationCoordinates" where
  "fixAt acc = \<lparr>latitude = 0, longitude = 0, accuracy = acc\<rparr>"

definition landmarkAt :: "real \<Rightarrow> LandmarkModel" where
  "landmarkAt lat =
    \<lparr>landmarkKey = 1, location = \<lparr>latitude = lat, longitude = 0\<rparr>, discoveryRadius = 100,
     difficulty = easy, xpReward = 50, badgeIds = []\<rparr>"

definition degreesNorth :: "real \<Rightarrow> real" where
  "degreesNorth meters = meters * 180 / (6371000 * pi)"

definition allDiscovered :: ExploreState where
  "allDiscovered = initialState\<lparr>landmarks := map (\<lambda>l. l\<lparr>discovered := True\<rparr>) initialLandmarks\<rparr>"

section \<open>The discovery core (server side)\<close>

text \<open>
  The repository holds the request and response declarations of the submission endpoint
  (\<open>SubmitDiscoveryRequest\<close>, \<open>SubmitDiscoveryResponse\<close>, \<open>UserProgress\<close>) and its
  callers, and no implementation of the server side. The components below are therefore
  modelled from the specification, section by section. Timestamps are whole seconds,
  XP amounts and distances are reals.
\<close>

text \<open>Modelled from the spec: the rejection reasons of the outcome (section 6).\<close>

datatype RejectReason =
  too_far | low_confidence | rate_limited | cooldown | implausible_timing | implausible_travel

text \<open>Modelled from the spec: the causes of a fault (section 7); the model has no oracle
  or persistence failure, so only the malformed input and a ledger entry without its
  stored outcome arise.\<close>

datatype FailCause = malformed_input | inconsistent_store

text \<open>Modelled from the spec: the submission (section 3), one user's claim.\<close>

record DiscoverySubmission =
  subUser :: string
  subLandmark :: int
  claimedLocation :: Location
  claimedAccuracy :: real
  confidence :: real
  clientTimestamp :: int
  idempotencyToken :: string

text \<open>Modelled from the spec: the persisted fact (section 3). The verification method
  is the \<open>discoveryMethod\<close> of the request declaration; the core only records scans.\<close>

record DiscoveryRecord =
  recUser :: string
  recLandmark :: int
  discoveredAt :: int
  verificationMethod :: string
  confidenceAtDiscovery :: real

text \<open>
  The user progress of the API integration specification: \<open>totalXp\<close>, \<open>level\<close>,
  \<open>badges\<close>, \<open>streakDays\<close> and \<open>lastDiscoveryDate\<close>, as the interface declares them
  (the date is absent before the first discovery). The list \<open>discoveredLandmarks\<close> is
  the ledger's view of the user and is kept in the ledger; the achievements have no
  rule in the specification and are left out.
\<close>

record UserProgress =
  totalXp :: real
  level :: int
  badges :: "int list"
  streakDays :: nat
  lastDiscoveryDate :: "int option"

text \<open>Modelled from the spec: the result of the reward calculator (section 4.5).\<close>

record RewardResult =
  xpDelta :: real
  leveledUp :: bool
  newLevel :: "int option"
  badgesAwarded :: "int list"

text \<open>Modelled from the spec: the figures of a completed outcome (section 6).\<close>

record Completion =
  reward :: RewardResult
  totalXpAfter :: real
  isFirstGlobalDiscovery :: bool
  rankAmongDiscoverers :: nat

text \<open>Modelled from the spec: the outcome of a submission (section 6).\<close>

datatype Outcome = Rejected RejectReason | Completed Completion | Failed FailCause

text \<open>Modelled from the spec: the per-landmark aggregate (section 3).\<close>

record LandmarkStats =
  discoverers :: "(string \<times> int) list"
  firstDiscovererSet :: bool

text \<open>Modelled from the spec: the per-user state of the anti-abuse guard (section 4.3):
  the time of the last submission for each landmark, the recent submission times, and
  the place and time of the previous accepted discovery.\<close>

record GuardState =
  lastSubmissionAt :: "int \<rightharpoonup> int"
  recentSubmissions :: "int list"
  lastAccepted :: "(Location \<times> int) option"

text \<open>Modelled from the spec: the configurable values (sections 4.2, 4.3, 4.5).\<close>

record Config =
  confidenceThreshold :: "Difficulty \<Rightarrow> real"
  cooldownPeriod :: int
  rateWindow :: int
  rateCap :: nat
  timingTolerance :: int
  maxSpeed :: real
  firstDiscoveryBonus :: real

text \<open>Modelled from the spec: the defaults it names: cooldown 30 s, at most 10
  submissions in 60 s, timing tolerance 120 s, 300 km/h (250/3 m/s), bonus 25. The
  threshold table has no default and is a parameter.\<close>

definition defaultConfig :: "(Difficulty \<Rightarrow> real) \<Rightarrow> Config" where
  "defaultConfig thresholds =
    \<lparr>confidenceThreshold = thresholds, cooldownPeriod = 30, rateWindow = 60, rateCap = 10,
     timingTolerance = 120, maxSpeed = 250 / 3, firstDiscoveryBonus = 25\<rparr>"

text \<open>Modelled from the spec: the durable state: the ledger of discovery records, the
  outcome stored with each record (what a replay returns), the progress of each user,
  the statistics of each landmark and the guard state of each user.\<close>

record CoreState =
  ledger :: "DiscoveryRecord list"
  completions :: "(string \<times> int) \<rightharpoonup> Completion"
  progress :: "string \<rightharpoonup> UserProgress"
  stats :: "int \<rightharpoonup> LandmarkStats"
  guards :: "string \<rightharpoonup> GuardState"

text \<open>Modelled from the spec: the state before any submission.\<close>

definition emptyCore :: CoreState where
  "emptyCore =
    \<lparr>ledger = [], completions = Map.empty, progress = Map.empty, stats = Map.empty,
     guards = Map.empty\<rparr>"

subsection \<open>RecognitionGate\<close>

text \<open>Modelled from the spec: \<open>accepts(confidence, threshold)\<close> (section 4.2).\<close>

definition accepts :: "real \<Rightarrow> real \<Rightarrow> bool" where
  "accepts conf threshold = (threshold \<le> conf)"

subsection \<open>AntiAbuseGuard\<close>

text \<open>Modelled from the spec: rule 1, the cooldown for the same landmark.\<close>

definition cooldownActive :: "Config \<Rightarrow> int \<Rightarrow> int \<Rightarrow> GuardState \<Rightarrow> bool" where
  "cooldownActive cfg now lm g =
    (case lastSubmissionAt g lm of
       None \<Rightarrow> False
     | Some t \<Rightarrow> now - t < cooldownPeriod cfg)"

text \<open>Modelled from the spec: rule 2, the rate limit: the submissions of the trailing
  window, the present one included, exceed the cap.\<close>

definition rateExceeded :: "Config \<Rightarrow> int \<Rightarrow> GuardState \<Rightarrow> bool" where
  "rateExceeded cfg now g =
    (rateCap cfg < length (filter (\<lambda>t. now - t < rateWindow cfg) (recentSubmissions g)) + 1)"

text \<open>Modelled from the spec: rule 3, the timing plausibility.\<close>

definition timingImplausible :: "Config \<Rightarrow> int \<Rightarrow> int \<Rightarrow> bool" where
  "timingImplausible cfg now clientTime = (timingTolerance cfg < \<bar>clientTime - now\<bar>)"

text \<open>Modelled from the spec: rule 4, the teleport detection: the distance from the
  previous accepted discovery divided by the elapsed time exceeds the maximum speed. With
  no elapsed time, any positive distance does.\<close>

definition travelImplausible :: "Config \<Rightarrow> int \<Rightarrow> Location \<Rightarrow> GuardState \<Rightarrow> bool" where
  "travelImplausible cfg now loc g =
    (case lastAccepted g of
       None \<Rightarrow> False
     | Some (prev, t) \<Rightarrow>
         (let d = calculateDistance (latitude prev) (longitude prev) (latitude loc) (longitude loc)
          in if 0 < now - t then maxSpeed cfg < d / real_of_int (now - t) else 0 < d))"

text \<open>Modelled from the spec: the rules are evaluated in order and the first failure
  wins (section 4.3).\<close>

definition guardCheck ::
  "Config \<Rightarrow> int \<Rightarrow> DiscoverySubmission \<Rightarrow> GuardState \<Rightarrow> RejectReason option" where
  "guardCheck cfg now sub g =
    (if cooldownActive cfg now (subLandmark sub) g then Some cooldown
     else if rateExceeded cfg now g then Some rate_limited
     else if timingImplausible cfg now (clientTimestamp sub) then Some implausible_timing
     else if travelImplausible cfg now (claimedLocation sub) g then Some implausible_travel
     else None)"

text \<open>Modelled from the spec: the guard state of a user with no submission yet.\<close>

definition freshGuard :: GuardState where
  "freshGuard = \<lparr>lastSubmissionAt = Map.empty, recentSubmissions = [], lastAccepted = None\<rparr>"

text \<open>Modelled from the spec: the guard state of a user (section 4.3), fresh before the first submission.\<close>

definition guardOf :: "CoreState \<Rightarrow> string \<Rightarrow> GuardState" where
  "guardOf st u = (case guards st u of None \<Rightarrow> freshGuard | Some g \<Rightarrow> g)"

text \<open>Modelled from the spec: what the guard tracks of a submission that passed its
  rules: the time of the last submission for the landmark and the window of recent
  submission times.\<close>

definition noteSubmission :: "Config \<Rightarrow> int \<Rightarrow> int \<Rightarrow> GuardState \<Rightarrow> GuardState" where
  "noteSubmission cfg now lm g =
    g\<lparr>lastSubmissionAt := (lastSubmissionAt g)(lm \<mapsto> now),
      recentSubmissions := now # filter (\<lambda>t. now - t < rateWindow cfg) (recentSubmissions g)\<rparr>"

subsection \<open>DiscoveryLedger\<close>

text \<open>Modelled from the spec: the key of the ledger, the (user, landmark) pair of a record (section 3).\<close>

definition matchesPair :: "string \<Rightarrow> int \<Rightarrow> DiscoveryRecord \<Rightarrow> bool" where
  "matchesPair u lm r = (recUser r = u \<and> recLandmark r = lm)"

text \<open>Modelled from the spec: \<open>recordIfAbsent(userId, landmarkId, record)\<close> (section
  4.4), a single conditional insert; it returns the flag \<open>inserted\<close>, the existing record
  and the new ledger.\<close>

definition recordIfAbsent ::
  "string \<Rightarrow> int \<Rightarrow> DiscoveryRecord \<Rightarrow> DiscoveryRecord list \<Rightarrow>
   bool \<times> DiscoveryRecord option \<times> DiscoveryRecord list" where
  "recordIfAbsent u lm r recs =
    (case find (matchesPair u lm) recs of
       Some existing \<Rightarrow> (False, Some existing, recs)
     | None \<Rightarrow> (True, None, recs @ [r]))"

subsection \<open>RewardCalculator\<close>

text \<open>Modelled from the spec: the difficulty multiplier (section 4.5).\<close>

fun multiplier :: "Difficulty \<Rightarrow> real" where
  "multiplier easy = 1"
| "multiplier medium = 3 / 2"
| "multiplier hard = 2"

text \<open>Modelled from the spec: the level curve it gives as its example,
  \<open>level = floor(sqrt(totalXp / 100)) + 1\<close> (section 4.5).\<close>

definition levelOf :: "real \<Rightarrow> int" where
  "levelOf xp = \<lfloor>sqrt (xp / 100)\<rfloor> + 1"

text \<open>Modelled from the spec: the calendar day of a timestamp in seconds.\<close>

definition dayOf :: "int \<Rightarrow> int" where
  "dayOf t = t div 86400"

text \<open>Modelled from the spec: the streak counter (section 4.5).\<close>

definition nextStreak :: "UserProgress \<Rightarrow> int \<Rightarrow> nat" where
  "nextStreak up ts =
    (case lastDiscoveryDate up of
       None \<Rightarrow> 1
     | Some prev \<Rightarrow>
         if dayOf ts = dayOf prev + 1 then streakDays up + 1
         else if dayOf ts = dayOf prev then streakDays up
         else 1)"

text \<open>Modelled from the spec: \<open>apply(userProgress, landmark, isFirstGlobalDiscovery)\<close>
  (section 4.5), with the time of the discovery for the streak. The level is computed
  from the new total; the stored level is not read.\<close>

definition applyReward ::
  "Config \<Rightarrow> UserProgress \<Rightarrow> LandmarkModel \<Rightarrow> bool \<Rightarrow> int \<Rightarrow> RewardResult \<times> UserProgress" where
  "applyReward cfg up lm isFirst ts =
    (let delta = xpReward lm * multiplier (difficulty lm) +
                 (if isFirst then firstDiscoveryBonus cfg else 0);
         total = totalXp up + delta;
         oldLevel = levelOf (totalXp up);
         lvl = levelOf total;
         awarded = filter (\<lambda>b. b \<notin> set (badges up)) (remdups (badgeIds lm))
     in (\<lparr>xpDelta = delta, leveledUp = (oldLevel < lvl),
          newLevel = (if oldLevel < lvl then Some lvl else None), badgesAwarded = awarded\<rparr>,
         up\<lparr>totalXp := total, level := lvl, badges := badges up @ awarded,
            streakDays := nextStreak up ts, lastDiscoveryDate := Some ts\<rparr>))"

text \<open>Modelled from the spec: the progress of a user with no discovery yet.\<close>

definition freshProgress :: UserProgress where
  "freshProgress =
    \<lparr>totalXp = 0, level = levelOf 0, badges = [], streakDays = 0, lastDiscoveryDate = None\<rparr>"

text \<open>Modelled from the spec: the progress of a user (section 3), fresh before the first discovery.\<close>

definition progressOf :: "CoreState \<Rightarrow> string \<Rightarrow> UserProgress" where
  "progressOf st u = (case progress st u of None \<Rightarrow> freshProgress | Some p \<Rightarrow> p)"

subsection \<open>LeaderboardIndex\<close>

text \<open>Modelled from the spec: the statistics of a landmark (section 3), empty before the first discoverer.\<close>

definition statsOf :: "CoreState \<Rightarrow> int \<Rightarrow> LandmarkStats" where
  "statsOf st lm =
    (case stats st lm of None \<Rightarrow> \<lparr>discoverers = [], firstDiscovererSet = False\<rparr> | Some ls \<Rightarrow> ls)"

text \<open>Modelled from the spec: \<open>recordDiscoverer(landmarkId, userId, timestamp)\<close>
  (section 4.6): the first-discoverer flag is checked and set, the discoverer is
  appended, and the rank is the position in the list.\<close>

definition recordDiscoverer ::
  "string \<Rightarrow> int \<Rightarrow> LandmarkStats \<Rightarrow> (bool \<times> nat) \<times> LandmarkStats" where
  "recordDiscoverer u ts ls =
    ((\<not> firstDiscovererSet ls, length (discoverers ls) + 1),
     \<lparr>discoverers = discoverers ls @ [(u, ts)], firstDiscovererSet = True\<rparr>)"

subsection \<open>DiscoveryCoordinator\<close>

text \<open>Modelled from the spec: the input validation (section 7): a confidence outside
  \<open>[0, 1]\<close> and an unknown landmark id are malformed; the result is the landmark of the
  catalog. Real coordinates are always finite.\<close>

definition validate ::
  "(int \<rightharpoonup> LandmarkModel) \<Rightarrow> DiscoverySubmission \<Rightarrow> LandmarkModel option" where
  "validate catalog sub =
    (if confidence sub < 0 \<or> 1 < confidence sub then None else catalog (subLandmark sub))"

text \<open>Modelled from the spec: the claimed location and accuracy of a submission
  (section 3), as the coordinates the proximity check reads.\<close>

definition claimedCoords :: "DiscoverySubmission \<Rightarrow> GeolocationCoordinates" where
  "claimedCoords sub =
    \<lparr>latitude = latitude (claimedLocation sub), longitude = longitude (claimedLocation sub),
     accuracy = claimedAccuracy sub\<rparr>"

text \<open>Modelled from the spec: the read-only checks of the state machine (section 4.7),
  \<open>Received \<rightarrow> GeoChecked \<rightarrow> RecognitionChecked \<rightarrow> AbuseChecked\<close>, short-circuiting on
  the first failure. The geo check is the proximity check of the repository.\<close>

definition checks ::
  "Config \<Rightarrow> LandmarkModel \<Rightarrow> int \<Rightarrow> DiscoverySubmission \<Rightarrow> CoreState \<Rightarrow> RejectReason option" where
  "checks cfg lm now sub st =
    (if \<not> isNearby (claimedCoords sub) lm then Some too_far
     else if \<not> accepts (confidence sub) (confidenceThreshold cfg (difficulty lm))
       then Some low_confidence
     else guardCheck cfg now sub (guardOf st (subUser sub)))"

text \<open>Modelled from the spec: the steps of the state machine after the checks (section
  4.7), \<open>Ledgered \<rightarrow> Rewarded \<rightarrow> Ranked \<rightarrow> Completed\<close>. The conditional insert decides
  (section 4.4): when it finds a record, the outcome stored with it is returned and no
  reward logic runs. The guard notes the submission that passed its rules. The flag of
  the result is the \<open>inserted\<close> of the ledger.\<close>

definition commit ::
  "Config \<Rightarrow> LandmarkModel \<Rightarrow> int \<Rightarrow> DiscoverySubmission \<Rightarrow> CoreState \<Rightarrow>
   (bool \<times> Outcome) \<times> CoreState" where
  "commit cfg lm now sub st =
    (let u = subUser sub;
         l = subLandmark sub;
         g = noteSubmission cfg now l (guardOf st u);
         r = \<lparr>recUser = u, recLandmark = l, discoveredAt = now,
              verificationMethod = ''scan'', confidenceAtDiscovery = confidence sub\<rparr>
     in case recordIfAbsent u l r (ledger st) of
          (False, existing, recs) \<Rightarrow>
            (case completions st (u, l) of
               Some c \<Rightarrow> ((False, Completed c), st\<lparr>guards := (guards st)(u \<mapsto> g)\<rparr>)
             | None \<Rightarrow> ((False, Failed inconsistent_store), st))
        | (True, existing, recs) \<Rightarrow>
            (let isFirst = \<not> firstDiscovererSet (statsOf st l);
                 (res, up) = applyReward cfg (progressOf st u) lm isFirst now;
                 ((isFirstGlobal, rank), ls) = recordDiscoverer u now (statsOf st l);
                 c = \<lparr>reward = res, totalXpAfter = totalXp up,
                      isFirstGlobalDiscovery = isFirstGlobal, rankAmongDiscoverers = rank\<rparr>
             in ((True, Completed c),
                 st\<lparr>ledger := recs,
                    completions := (completions st)((u, l) \<mapsto> c),
                    progress := (progress st)(u \<mapsto> up),
                    stats := (stats st)(l \<mapsto> ls),
                    guards := (guards st)(u \<mapsto> g\<lparr>lastAccepted := Some (claimedLocation sub, now)\<rparr>)\<rparr>)))"

text \<open>The ledger holds a record for the pair.\<close>

definition hasRecord :: "string \<Rightarrow> int \<Rightarrow> CoreState \<Rightarrow> bool" where
  "hasRecord u l st = (find (matchesPair u l) (ledger st) \<noteq> None)"

text \<open>Modelled from the spec: the match of a submission against a prior record
  (sections 4.4, 4.7 and 7): when the pair has its record, independent of the token,
  the answer is the outcome stored with it.\<close>

definition priorOutcome :: "CoreState \<Rightarrow> string \<Rightarrow> int \<Rightarrow> Outcome option" where
  "priorOutcome st u l =
    (if hasRecord u l st
     then Some (case completions st (u, l) of
                  Some c \<Rightarrow> Completed c
                | None \<Rightarrow> Failed inconsistent_store)
     else None)"

text \<open>Modelled from the spec: \<open>submitDiscovery(submission) \<rightarrow> outcome\<close> (section 6), at
  the server receipt time \<open>now\<close>. Malformed input is a fault before anything else
  (section 7). A submission for a pair that already has its record is a replay: it is
  answered with the original outcome and nothing else runs, which is how sections 4.4,
  4.7 and 7 state the idempotency, end-to-end and as a success. (Section 8 also lets the
  cooldown reject a second submission after an accepted one; for a pair with its record
  the two cannot both hold, and the coordinator follows the idempotency.) Otherwise the
  checks run, and then the atomic section. A fault, a rejection and a replay leave the
  state as it was.\<close>

definition submitDiscovery ::
  "Config \<Rightarrow> (int \<rightharpoonup> LandmarkModel) \<Rightarrow> int \<Rightarrow> DiscoverySubmission \<Rightarrow> CoreState \<Rightarrow>
   Outcome \<times> CoreState" where
  "submitDiscovery cfg catalog now sub st =
    (case validate catalog sub of
       None \<Rightarrow> (Failed malformed_input, st)
     | Some lm \<Rightarrow>
         (case priorOutcome st (subUser sub) (subLandmark sub) of
            Some original \<Rightarrow> (original, st)
          | None \<Rightarrow>
              (case checks cfg lm now sub st of
                 Some reason \<Rightarrow> (Rejected reason, st)
               | None \<Rightarrow> (let (r, st') = commit cfg lm now sub st in (snd r, st')))))"

text \<open>Modelled from the spec: a sequence of submissions, each with its receipt time,
  served one after the other.\<close>

fun runAll ::
  "Config \<Rightarrow> (int \<rightharpoonup> LandmarkModel) \<Rightarrow> CoreState \<Rightarrow> (int \<times> DiscoverySubmission) list \<Rightarrow>
   CoreState" where
  "runAll cfg catalog st [] = st"
| "runAll cfg catalog st ((now, sub) # evs) =
     runAll cfg catalog (snd (submitDiscovery cfg catalog now sub st)) evs"

text \<open>The records of the ledger for a pair.\<close>

definition recordsFor :: "string \<Rightarrow> int \<Rightarrow> CoreState \<Rightarrow> DiscoveryRecord list" where
  "recordsFor u l st = filter (matchesPair u l) (ledger st)"

abbreviation keyOf :: "DiscoveryRecord \<Rightarrow> string \<times> int" where
  "keyOf r \<equiv> (recUser r, recLandmark r)"

text \<open>The stored level of every user is the level of the stored total.\<close>

definition levelsDerived :: "CoreState \<Rightarrow> bool" where
  "levelsDerived st = (\<forall>u p. progress st u = Some p \<longrightarrow> level p = levelOf (totalXp p))"

subsection \<open>Example data for the closed instances\<close>

definition exampleLandmark :: LandmarkModel where
  "exampleLandmark =
    \<lparr>landmarkKey = 3, location = \<lparr>latitude = 634 / 10, longitude = 104 / 10\<rparr>,
     discoveryRadius = 100, difficulty = easy, xpReward = 75, badgeIds = [7]\<rparr>"

definition exampleCatalog :: "int \<rightharpoonup> LandmarkModel" where
  "exampleCatalog = [3 \<mapsto> exampleLandmark]"

definition exampleConfig :: Config where
  "exampleConfig = defaultConfig (\<lambda>d. 1 / 2)"

definition exampleCompletion :: Completion where
  "exampleCompletion =
    \<lparr>reward = \<lparr>xpDelta = 100, leveledUp = True, newLevel = Some 2, badgesAwarded = [7]\<rparr>,
     totalXpAfter = 100, isFirstGlobalDiscovery = True, rankAmongDiscoverers = 1\<rparr>"

definition exampleSubmission :: DiscoverySubmission where
  "exampleSubmission =
    \<lparr>subUser = ''ada'', subLandmark = 3,
     claimedLocation = \<lparr>latitude = 634 / 10, longitude = 104 / 10\<rparr>, claimedAccuracy = 0,
     confidence = 9 / 10, clientTimestamp = 1000, idempotencyToken = ''t1''\<rparr>"

text \<open>The state after the example submission is served at time 1000 on the empty core.\<close>

definition afterFirst :: CoreState where
  "afterFirst =
    \<lparr>ledger = [\<lparr>recUser = ''ada'', recLandmark = 3, discoveredAt = 1000,
                 verificationMethod = ''scan'', confidenceAtDiscovery = 9 / 10\<rparr>],
     completions = [(''ada'', 3) \<mapsto> exampleCompletion],
     progress = [''ada'' \<mapsto> \<lparr>totalXp = 100, level = 2, badges = [7], streakDays = 1,
                              lastDiscoveryDate = Some 1000\<rparr>],
     stats = [3 \<mapsto> \<lparr>discoverers = [(''ada'', 1000)], firstDiscovererSet = True\<rparr>],
     guards = [''ada'' \<mapsto> \<lparr>lastSubmissionAt = [3 \<mapsto> 1000], recentSubmissions = [1000],
                            lastAccepted = Some (\<lparr>latitude = 634 / 10, longitude = 104 / 10\<rparr>, 1000)\<rparr>]\<rparr>"

section \<open>Properties of the Explore page\<close>

lemma markDiscovered_frame:
  "id_lm (markDiscovered i l) = id_lm l" "name (markDiscovered i l) = name l"
  "x_pos (markDiscovered i l) = x_pos l" "y_pos (markDiscovered i l) = y_pos l"
  "category (markDiscovered i l) = category l" "year (markDiscovered i l) = year l"
  "metersAway (markDiscovered i l) = metersAway l"
  by (simp_all add: markDiscovered_def)

text \<open>
  Claim C9. \<open>handleDiscoveryComplete\<close> keeps the length and the order of the list; a
  landmark whose id is the argument becomes the same landmark with \<open>discovered\<close> set to
  true, every other landmark is unchanged, and in both cases the name, the position, the
  category, the year and the distance are those of the old landmark. If no landmark has
  the id, the list is the old list.
\<close>

theorem handleDiscoveryComplete_frame:
  "length (landmarks (handleDiscoveryComplete lid s)) = length (landmarks s) \<and>
   (\<forall>i < length (landmarks s).
      (id_lm (landmarks s ! i) = lid \<longrightarrow>
         landmarks (handleDiscoveryComplete lid s) ! i = (landmarks s ! i)\<lparr>discovered := True\<rparr>) \<and>
      (id_lm (landmarks s ! i) \<noteq> lid \<longrightarrow>
         landmarks (handleDiscoveryComplete lid s) ! i = landmarks s ! i) \<and>
      id_lm (landmarks (handleDiscoveryComplete lid s) ! i) = id_lm (landmarks s ! i) \<and>
      name (landmarks (handleDiscoveryComplete lid s) ! i) = name (landmarks s ! i) \<and>
      x_pos (landmarks (handleDiscoveryComplete lid s) ! i) = x_pos (landmarks s ! i) \<and>
      y_pos (landmarks (handleDiscoveryComplete lid s) ! i) = y_pos (landmarks s ! i) \<and>
      category (landmarks (handleDiscoveryComplete lid s) ! i) = category (landmarks s ! i) \<and>
      year (landmarks (handleDiscoveryComplete lid s) ! i) = year (landmarks s ! i) \<and>
      metersAway (landmarks (handleDiscoveryComplete lid s) ! i) = metersAway (landmarks s ! i)) \<and>
   ((\<forall>l \<in> set (landmarks s). id_lm l \<noteq> lid) \<longrightarrow>
      landmarks (handleDiscoveryComplete lid s) = landmarks s)"
proof (intro conjI allI impI)
  show "length (landmarks (handleDiscoveryComplete lid s)) = length (landmarks s)"
    by (simp add: handleDiscoveryComplete_def)
next
  assume "\<forall>l \<in> set (landmarks s). id_lm l \<noteq> lid"
  then have "map (markDiscovered lid) (landmarks s) = landmarks s"
    by (intro map_idI) (simp add: markDiscovered_def)
  then show "landmarks (handleDiscoveryComplete lid s) = landmarks s"
    by (simp add: handleDiscoveryComplete_def)
qed (simp_all add: handleDiscoveryComplete_def markDiscovered_frame, simp_all add: markDiscovered_def)

theorem handleDiscoveryComplete_frame_witness:
  "landmarks (handleDiscoveryComplete 3 initialState) ! 2 =
     (initialLandmarks ! 2)\<lparr>discovered := True\<rparr> \<and>
   landmarks (handleDiscoveryComplete 3 initialState) ! 0 = initialLandmarks ! 0 \<and>
   name (landmarks (handleDiscoveryComplete 3 initialState) ! 2) = ''Old Town Bridge'' \<and>
   landmarks (handleDiscoveryComplete 9 initialState) = initialLandmarks"
  using handleDiscoveryComplete_frame [of 3 initialState]
    handleDiscoveryComplete_frame [of 9 initialState]
  by (simp add: initialState_def initialLandmarks_def)

text \<open>
  Claim C10. When some landmark is undiscovered, the click on the camera button launches
  the scanner for the first such landmark in array order: the state after the click is
  the old state with that landmark to scan, the scanner shown and the selection cleared.
  When every landmark is discovered the click returns the state it was given, so it opens
  no scanner.
\<close>

theorem cameraButtonClick_first_undiscovered:
  "((\<exists>l \<in> set (landmarks s). \<not> discovered l) \<longrightarrow>
      (\<exists>i < length (landmarks s).
          \<not> discovered (landmarks s ! i) \<and> (\<forall>j < i. discovered (landmarks s ! j)) \<and>
          cameraButtonClick s =
            s\<lparr>landmarkToScan := Some (landmarks s ! i), showScanner := True,
              selectedLandmark := None\<rparr> \<and>
          scannerShown (cameraButtonClick s))) \<and>
   ((\<forall>l \<in> set (landmarks s). discovered l) \<longrightarrow>
      cameraButtonClick s = s \<and> scannerShown (cameraButtonClick s) = scannerShown s)"
proof (intro conjI impI)
  assume "\<exists>l \<in> set (landmarks s). \<not> discovered l"
  then obtain l where l: "find (\<lambda>l. \<not> discovered l) (landmarks s) = Some l"
    by (cases "find (\<lambda>l. \<not> discovered l) (landmarks s)") (auto simp: find_None_iff)
  then obtain i where i: "i < length (landmarks s)" "\<not> discovered (landmarks s ! i)"
      "l = landmarks s ! i" "\<forall>j < i. discovered (landmarks s ! j)"
    by (auto simp: find_Some_iff)
  have "cameraButtonClick s =
      s\<lparr>landmarkToScan := Some (landmarks s ! i), showScanner := True, selectedLandmark := None\<rparr>"
    using l i(3) by (simp add: cameraButtonClick_def launchScanner_def)
  moreover from this have "scannerShown (cameraButtonClick s)"
    by (simp add: scannerShown_def)
  ultimately show "\<exists>i < length (landmarks s).
      \<not> discovered (landmarks s ! i) \<and> (\<forall>j < i. discovered (landmarks s ! j)) \<and>
      cameraButtonClick s =
        s\<lparr>landmarkToScan := Some (landmarks s ! i), showScanner := True,
          selectedLandmark := None\<rparr> \<and>
      scannerShown (cameraButtonClick s)"
    using i by blast
next
  assume "\<forall>l \<in> set (landmarks s). discovered l"
  then have "find (\<lambda>l. \<not> discovered l) (landmarks s) = None"
    by (simp add: find_None_iff)
  then show "cameraButtonClick s = s" by (simp add: cameraButtonClick_def)
  then show "scannerShown (cameraButtonClick s) = scannerShown s" by simp
qed

theorem cameraButtonClick_first_undiscovered_witness:
  "cameraButtonClick initialState =
     initialState\<lparr>landmarkToScan := Some (initialLandmarks ! 2), showScanner := True,
       selectedLandmark := None\<rparr> \<and>
   cameraButtonClick allDiscovered = allDiscovered \<and> \<not> scannerShown (cameraButtonClick allDiscovered)"
proof -
  have u: "\<exists>l \<in> set (landmarks initialState). \<not> discovered l"
    by (simp add: initialState_def initialLandmarks_def)
  have d: "\<forall>l \<in> set (landmarks allDiscovered). discovered l"
    by (simp add: allDiscovered_def)
  from cameraButtonClick_first_undiscovered [of initialState] u
  obtain i where i: "i < length (landmarks initialState)"
      "\<not> discovered (landmarks initialState ! i)"
      "\<forall>j < i. discovered (landmarks initialState ! j)"
      "cameraButtonClick initialState =
        initialState\<lparr>landmarkToScan := Some (landmarks initialState ! i), showScanner := True,
          selectedLandmark := None\<rparr>"
    by blast
  have "i = 2"
  proof -
    have "i \<noteq> 0"
    proof
      assume "i = 0"
      with i(2) show False by (simp add: initialState_def initialLandmarks_def)
    qed
    moreover have "i \<noteq> 1"
    proof
      assume "i = 1"
      with i(2) show False by (simp add: initialState_def initialLandmarks_def)
    qed
    moreover have "\<not> 2 < i"
    proof
      assume "2 < i"
      with i(3) have "discovered (landmarks initialState ! 2)" by blast
      then show False by (simp add: initialState_def initialLandmarks_def)
    qed
    ultimately show ?thesis by arith
  qed
  with i(4) have 1: "cameraButtonClick initialState =
     initialState\<lparr>landmarkToScan := Some (initialLandmarks ! 2), showScanner := True,
       selectedLandmark := None\<rparr>"
    by (simp add: initialState_def)
  from cameraButtonClick_first_undiscovered [of allDiscovered] d
  have 2: "cameraButtonClick allDiscovered = allDiscovered" by blast
  have "\<not> scannerShown allDiscovered"
    by (simp add: scannerShown_def allDiscovered_def initialState_def)
  with 1 2 show ?thesis by simp
qed

section \<open>Properties of the client-side XP\<close>

text \<open>
  Claim C8. For every draw \<open>r\<close> of \<open>Math.random()\<close>, that is \<open>0 \<le> r < 1\<close>, the formula
  awards between 50 and 99 XP, so never 100; every amount from 50 to 99 is the award of
  some draw.
\<close>

theorem xpOfDraw_range:
  "(0 \<le> r \<and> r < 1 \<longrightarrow> 50 \<le> xpOfDraw r \<and> xpOfDraw r \<le> 99 \<and> xpOfDraw r \<noteq> 100) \<and>
   (50 \<le> n \<and> n \<le> 99 \<longrightarrow>
      0 \<le> real_of_int (n - 50) / 50 \<and> real_of_int (n - 50) / 50 < 1 \<and>
      xpOfDraw (real_of_int (n - 50) / 50) = n)"
proof (intro conjI impI)
  assume r: "0 \<le> r \<and> r < 1"
  then have "0 \<le> r * 50" "r * 50 < 50" by simp_all
  then have "0 \<le> \<lfloor>r * 50\<rfloor>" "\<lfloor>r * 50\<rfloor> < 50" by (simp_all add: floor_less_iff)
  then show "50 \<le> xpOfDraw r" "xpOfDraw r \<le> 99" "xpOfDraw r \<noteq> 100"
    unfolding xpOfDraw_def by linarith+
next
  assume n: "50 \<le> n \<and> n \<le> 99"
  then show "0 \<le> real_of_int (n - 50) / 50" "real_of_int (n - 50) / 50 < 1" by simp_all
  have "real_of_int (n - 50) / 50 * 50 = real_of_int (n - 50)" by simp
  then show "xpOfDraw (real_of_int (n - 50) / 50) = n"
    unfolding xpOfDraw_def by (simp only: floor_of_int)
qed

theorem xpOfDraw_range_witness:
  "xpOfDraw (999 / 1000) = 99 \<and> xpOfDraw (999 / 1000) \<noteq> 100 \<and> xpOfDraw 0 = 50"
proof -
  have "50 \<le> xpOfDraw (999 / 1000) \<and> xpOfDraw (999 / 1000) \<le> 99 \<and> xpOfDraw (999 / 1000) \<noteq> 100"
    using xpOfDraw_range [of "999 / 1000" 50] by simp
  moreover have "xpOfDraw (999 / 1000) = 99" by (simp add: xpOfDraw_def)
  moreover have "xpOfDraw 0 = 50" using xpOfDraw_range [of 0 50] by simp
  ultimately show ?thesis by simp
qed

section \<open>Properties of the LocationService\<close>

lemma calculateDistance_self: "calculateDistance lat lon lat lon = 0"
  by (simp add: calculateDistance_def atan2_def)

declare calculateDistance_self [simp]

text \<open>On \<open>[0, 1]\<close> the two-argument arctangent of the source is the arcsine of the
  textbook formula.\<close>

lemma atan2_sqrt_arcsin:
  assumes "0 \<le> a" "a \<le> 1"
  shows "atan2 (sqrt a) (sqrt (1 - a)) = arcsin (sqrt a)"
proof (cases "a = 1")
  case True
  then show ?thesis by (simp add: atan2_def)
next
  case False
  with assms have lt: "a < 1" by simp
  then have pos: "0 < sqrt (1 - a)" by simp
  have x1: "sqrt a < 1" using lt assms(1) by (simp add: real_sqrt_lt_1_iff)
  have "0 \<le> sqrt a" using assms(1) by simp
  then have x0: "- 1 < sqrt a" by linarith
  have sq: "(sqrt a)\<^sup>2 = a" using assms(1) by simp
  have "arcsin (sqrt a) = arctan (sqrt a / sqrt (1 - (sqrt a)\<^sup>2))"
    by (rule arcsin_arctan[OF x0 x1])
  with pos show ?thesis by (simp add: atan2_def sq)
qed

lemma cos_prod_half:
  "cos p * cos q = (cos ((p + q) / 2))\<^sup>2 - (sin ((q - p) / 2))\<^sup>2" for p q :: real
proof -
  define u where "u = (p + q) / 2"
  define v where "v = (q - p) / 2"
  define cu su cv sv where "cu = cos u" and "su = sin u" and "cv = cos v" and "sv = sin v"
  have p: "p = u - v" and q: "q = u + v" by (simp_all add: u_def v_def field_simps)
  have 1: "su\<^sup>2 = 1 - cu\<^sup>2" unfolding su_def cu_def by (rule sin_squared_eq)
  have 2: "cv\<^sup>2 = 1 - sv\<^sup>2" unfolding sv_def cv_def by (rule cos_squared_eq)
  have "cos p * cos q = (cu * cv + su * sv) * (cu * cv - su * sv)"
    unfolding p q cos_add cos_diff cu_def su_def cv_def sv_def ..
  also have "\<dots> = cu\<^sup>2 * cv\<^sup>2 - su\<^sup>2 * sv\<^sup>2"
    by (simp add: power2_eq_square algebra_simps)
  also have "\<dots> = cu\<^sup>2 - sv\<^sup>2"
    unfolding 1 2 by (simp add: algebra_simps)
  finally show ?thesis unfolding cu_def sv_def u_def v_def .
qed

text \<open>The term under the square root lies in \<open>[0, 1]\<close> for all inputs: it is a convex
  combination of a squared sine and a squared cosine.\<close>

lemma haversine_term_bounds:
  fixes p q l :: real
  defines "a \<equiv> (sin ((q - p) / 2))\<^sup>2 + cos p * cos q * (sin (l / 2))\<^sup>2"
  shows "0 \<le> a \<and> a \<le> 1"
proof -
  define t where "t = (sin (l / 2))\<^sup>2"
  define s where "s = (sin ((q - p) / 2))\<^sup>2"
  define c where "c = (cos ((p + q) / 2))\<^sup>2"
  have t: "0 \<le> t" "t \<le> 1" by (simp_all add: t_def abs_square_le_1)
  have s: "0 \<le> s" "s \<le> 1" by (simp_all add: s_def abs_square_le_1)
  have c: "0 \<le> c" "c \<le> 1" by (simp_all add: c_def abs_square_le_1)
  have a: "a = (1 - t) * s + t * c"
    unfolding a_def cos_prod_half t_def s_def c_def by (simp add: algebra_simps)
  have "0 \<le> (1 - t) * s" "0 \<le> t * c" using t s c by simp_all
  then have lo: "0 \<le> a" unfolding a by simp
  have "(1 - t) * s \<le> (1 - t) * 1" using t s by (intro mult_left_mono) simp_all
  moreover have "t * c \<le> t * 1" using t c by (intro mult_left_mono) simp_all
  ultimately have hi: "a \<le> 1" unfolding a by simp
  from lo hi show ?thesis by simp
qed

lemma calculateDistance_haversine:
  "calculateDistance lat1 lon1 lat2 lon2 = haversineDistance lat1 lon1 lat2 lon2"
proof -
  define a where "a = (sin ((lat2 * pi / 180 - lat1 * pi / 180) / 2))\<^sup>2 +
     cos (lat1 * pi / 180) * cos (lat2 * pi / 180) * (sin ((lon2 - lon1) * pi / 180 / 2))\<^sup>2"
  have b: "0 \<le> a \<and> a \<le> 1" unfolding a_def by (rule haversine_term_bounds)
  have e1: "(lat2 - lat1) * pi / 180 = lat2 * pi / 180 - lat1 * pi / 180"
    by (simp add: algebra_simps diff_divide_distrib)
  have e2: "lon2 * pi / 180 - lon1 * pi / 180 = (lon2 - lon1) * pi / 180"
    by (simp add: algebra_simps diff_divide_distrib)
  have l: "calculateDistance lat1 lon1 lat2 lon2 = 6371000 * (2 * atan2 (sqrt a) (sqrt (1 - a)))"
    unfolding calculateDistance_def Let_def earthRadius_def a_def e1
    by (simp only: power2_eq_square mult.assoc)
  have r: "haversineDistance lat1 lon1 lat2 lon2 = 2 * 6371000 * arcsin (sqrt a)"
    unfolding haversineDistance_def hav_def radians_def a_def e2 by (simp only:)
  show ?thesis unfolding l r using b by (simp add: atan2_sqrt_arcsin)
qed

text \<open>Along a meridian the distance is the radius times the difference of latitude in
  radians.\<close>

lemma calculateDistance_meridian:
  assumes "0 \<le> d" "d \<le> 180"
  shows "calculateDistance lat lon (lat + d) lon = 6371000 * (d * pi / 180)"
proof -
  define x where "x = d * pi / 180 / 2"
  have x0: "0 \<le> x" using assms by (simp add: x_def)
  have "d * pi \<le> 180 * pi" using assms by simp
  then have x1: "x \<le> pi / 2" by (simp add: x_def)
  have s: "0 \<le> sin x" using x0 x1 by (intro sin_ge_zero) (simp_all add: field_simps)
  have "hav (radians (lat + d) - radians lat) = (sin x)\<^sup>2"
    unfolding hav_def radians_def x_def by (simp add: algebra_simps add_divide_distrib)
  then have "haversineDistance lat lon (lat + d) lon = 2 * 6371000 * arcsin (sqrt ((sin x)\<^sup>2))"
    unfolding haversineDistance_def by (simp add: hav_def)
  also have "sqrt ((sin x)\<^sup>2) = sin x" using s by simp
  also have "arcsin (sin x) = x" using x0 x1 by (intro arcsin_sin) simp_all
  finally show ?thesis by (simp add: calculateDistance_haversine x_def)
qed

lemma calculateDistance_degreesNorth:
  assumes "0 \<le> m" "m \<le> 6371000"
  shows "calculateDistance 0 0 (degreesNorth m) 0 = m"
proof -
  have "m * 180 / (6371000 * pi) \<le> 6371000 * 180 / (6371000 * pi)"
    using assms by (intro divide_right_mono mult_right_mono) simp_all
  also have "\<dots> = 180 / pi" by simp
  also have "\<dots> \<le> 180 / 2" using pi_ge_two by (intro divide_left_mono) simp_all
  finally have le: "degreesNorth m \<le> 180" by (simp add: degreesNorth_def)
  have ge: "0 \<le> degreesNorth m" using assms by (simp add: degreesNorth_def)
  show ?thesis
    using calculateDistance_meridian[OF ge le, of 0 0] by (simp add: degreesNorth_def)
qed

lemma calculateDistance_512:
  "calculateDistance 0 0 (1 / 512) 0 = 6371000 * ((1 / 512) * pi / 180)"
  using calculateDistance_meridian[of "1 / 512" 0 0] by simp

text \<open>
  Claim C2, as the specification states it, at two inputs. A fix with accuracy 30 m and a
  landmark of radius 100 m that is 120 m away: the distance is within radius plus
  accuracy, and the check of the repository refuses. The same with a landmark 1/512 of
  a degree north (between 100 m and 300 m away) and an accuracy of 200 m.
\<close>

theorem isNearby_slack_counterexample:
  "\<not> (isNearby (fixAt 30) (landmarkAt (degreesNorth 120)) \<longleftrightarrow>
       calculateDistance 0 0 (degreesNorth 120) 0 \<le> 100 + 1 * 30) \<and>
   \<not> (isNearby (fixAt 200) (landmarkAt (1 / 512)) \<longleftrightarrow>
       calculateDistance 0 0 (1 / 512) 0 \<le> 100 + 1 * 200)"
proof -
  have d: "calculateDistance 0 0 (degreesNorth 120) 0 = 120"
    by (rule calculateDistance_degreesNorth) simp_all
  have lo: "100 < calculateDistance 0 0 (1 / 512) 0"
    unfolding calculateDistance_512 using pi_ge_two by simp
  have hi: "calculateDistance 0 0 (1 / 512) 0 \<le> 300"
    unfolding calculateDistance_512 using pi_less_4 by simp
  have 1: "\<not> isNearby (fixAt 30) (landmarkAt (degreesNorth 120))"
    by (simp add: isNearby_def isWithinRange_def fixAt_def landmarkAt_def d)
  have 2: "\<not> isNearby (fixAt 200) (landmarkAt (1 / 512))"
    using lo by (simp add: isNearby_def isWithinRange_def fixAt_def landmarkAt_def)
  from 1 2 d hi show ?thesis by simp
qed

text \<open>
  Claim C2, amended. The proximity check accepts exactly when the great-circle distance
  is at most the discovery radius of the landmark (the bound \<open>maxDistance\<close>, 100 m by
  default); the accuracy of the fix plays no part. With radius 100 m a claim 99 m away is
  accepted, and claims 150 m and 120 m away are refused, whatever the accuracy.
\<close>

theorem isNearby_radius_only:
  "isNearby coords lm =
     (calculateDistance (latitude coords) (longitude coords)
        (latitude (location lm)) (longitude (location lm)) \<le> discoveryRadius lm) \<and>
   isNearby (coords\<lparr>accuracy := acc\<rparr>) lm = isNearby coords lm \<and>
   isWithinRange lat1 lon1 lat2 lon2 defaultMaxDistance =
     (calculateDistance lat1 lon1 lat2 lon2 \<le> 100) \<and>
   isNearby (fixAt acc) (landmarkAt (degreesNorth 99)) \<and>
   \<not> isNearby (fixAt acc) (landmarkAt (degreesNorth 150)) \<and>
   \<not> isNearby (fixAt acc) (landmarkAt (degreesNorth 120))"
proof -
  have d: "calculateDistance 0 0 (degreesNorth 99) 0 = 99"
    "calculateDistance 0 0 (degreesNorth 150) 0 = 150"
    "calculateDistance 0 0 (degreesNorth 120) 0 = 120"
    by (rule calculateDistance_degreesNorth; simp)+
  show ?thesis
    by (simp add: isNearby_def isWithinRange_def defaultMaxDistance_def fixAt_def
        landmarkAt_def d)
qed

section \<open>Properties of the discovery core\<close>

subsection \<open>The example submission\<close>

lemma levelOf_0: "levelOf 0 = 1"
  by (simp add: levelOf_def)

lemma levelOf_100: "levelOf 100 = 2"
  by (simp add: levelOf_def)

lemma example_validate: "validate exampleCatalog exampleSubmission = Some exampleLandmark"
  by (simp add: validate_def exampleCatalog_def exampleSubmission_def)

lemma example_no_record: "\<not> hasRecord ''ada'' 3 emptyCore"
  by (simp add: hasRecord_def emptyCore_def)

lemma example_checks_first:
  "checks exampleConfig exampleLandmark 1000 exampleSubmission emptyCore = None"
  by (simp add: checks_def isNearby_def isWithinRange_def claimedCoords_def exampleSubmission_def
      exampleLandmark_def accepts_def exampleConfig_def defaultConfig_def guardCheck_def
      guardOf_def emptyCore_def freshGuard_def cooldownActive_def rateExceeded_def
      timingImplausible_def travelImplausible_def)

lemma example_commit_first:
  "commit exampleConfig exampleLandmark 1000 exampleSubmission emptyCore =
     ((True, Completed exampleCompletion), afterFirst)"
  by (simp add: commit_def Let_def recordIfAbsent_def emptyCore_def exampleSubmission_def
      applyReward_def progressOf_def freshProgress_def statsOf_def recordDiscoverer_def
      exampleLandmark_def exampleConfig_def defaultConfig_def levelOf_0 levelOf_100
      exampleCompletion_def afterFirst_def guardOf_def freshGuard_def noteSubmission_def
      nextStreak_def)

lemma example_first:
  "submitDiscovery exampleConfig exampleCatalog 1000 exampleSubmission emptyCore =
     (Completed exampleCompletion, afterFirst)"
proof -
  have "priorOutcome emptyCore (subUser exampleSubmission) (subLandmark exampleSubmission) = None"
    using example_no_record by (simp add: priorOutcome_def exampleSubmission_def)
  then show ?thesis
    by (simp add: submitDiscovery_def example_validate example_checks_first example_commit_first)
qed


subsection \<open>The steps after the checks\<close>





subsection \<open>One submission\<close>






subsection \<open>The ledger holds at most one record for a pair\<close>

lemma find_matchesPair_None:
  "find (matchesPair u l) recs = None \<longleftrightarrow> (u, l) \<notin> set (map keyOf recs)"
  by (auto simp: find_None_iff matchesPair_def)

lemma recordIfAbsent_distinct:
  assumes "distinct (map keyOf recs)" "recUser r = u" "recLandmark r = l"
  shows "distinct (map keyOf (snd (snd (recordIfAbsent u l r recs))))"
  using assms by (auto simp: recordIfAbsent_def find_matchesPair_None split: option.splits)

lemma commit_ledger:
  "ledger (snd (commit cfg lm now sub st)) =
     snd (snd (recordIfAbsent (subUser sub) (subLandmark sub)
       \<lparr>recUser = subUser sub, recLandmark = subLandmark sub, discoveredAt = now,
        verificationMethod = ''scan'', confidenceAtDiscovery = confidence sub\<rparr> (ledger st)))"
  by (auto simp: commit_def Let_def recordIfAbsent_def split: option.splits prod.splits)

lemma commit_distinct:
  "distinct (map keyOf (ledger st)) \<Longrightarrow> distinct (map keyOf (ledger (snd (commit cfg lm now sub st))))"
  unfolding commit_ledger by (rule recordIfAbsent_distinct) simp_all

lemma submit_distinct:
  "distinct (map keyOf (ledger st)) \<Longrightarrow>
   distinct (map keyOf (ledger (snd (submitDiscovery cfg catalog now sub st))))"
  by (auto simp: submitDiscovery_def split_beta commit_distinct split: option.splits)

lemma runAll_distinct:
  "distinct (map keyOf (ledger st)) \<Longrightarrow> distinct (map keyOf (ledger (runAll cfg catalog st evs)))"
  by (induction evs arbitrary: st) (auto simp: submit_distinct)

lemma distinct_filter_le1:
  "distinct (map keyOf recs) \<Longrightarrow> length (filter (matchesPair u l) recs) \<le> 1"
proof (induction recs)
  case Nil
  then show ?case by simp
next
  case (Cons r recs)
  show ?case
  proof (cases "matchesPair u l r")
    case True
    then have "(u, l) \<notin> set (map keyOf recs)" using Cons.prems by (auto simp: matchesPair_def)
    then have "filter (matchesPair u l) recs = []"
      by (auto simp: filter_empty_conv matchesPair_def)
    with True show ?thesis by simp
  next
    case False
    with Cons show ?thesis by simp
  qed
qed

text \<open>After every sequence of submissions, served one after the other, the ledger holds
  at most one record for each pair.\<close>

lemma runAll_at_most_one_record:
  "length (recordsFor u l (runAll cfg catalog emptyCore evs)) \<le> 1"
proof -
  have "distinct (map keyOf (ledger (runAll cfg catalog emptyCore evs)))"
    by (rule runAll_distinct) (simp add: emptyCore_def)
  then show ?thesis unfolding recordsFor_def by (rule distinct_filter_le1)
qed

subsection \<open>Malformed input\<close>

text \<open>
  Claim C7. A submission whose confidence lies outside \<open>[0, 1]\<close> fails validation and is
  answered with the fault \<open>malformed_input\<close>, whatever the configuration, the catalog,
  the time and the state, so before and independently of every verification rule; the
  state is unchanged. The confidence is not clamped: the answer is the fault, not the
  outcome of the submission with the confidence moved into range.
\<close>

theorem malformed_confidence_is_fault:
  "confidence sub < 0 \<or> 1 < confidence sub \<Longrightarrow>
     validate catalog sub = None \<and>
     submitDiscovery cfg catalog now sub st = (Failed malformed_input, st)"
  by (auto simp: submitDiscovery_def validate_def)

lemma example_clamped:
  "fst (submitDiscovery exampleConfig exampleCatalog 1000 (exampleSubmission\<lparr>confidence := 1\<rparr>) emptyCore)
     \<noteq> Failed malformed_input"
  by (simp add: submitDiscovery_def validate_def exampleCatalog_def exampleSubmission_def
      priorOutcome_def hasRecord_def
      checks_def isNearby_def isWithinRange_def claimedCoords_def
      exampleLandmark_def accepts_def exampleConfig_def defaultConfig_def guardCheck_def
      guardOf_def emptyCore_def freshGuard_def cooldownActive_def rateExceeded_def
      timingImplausible_def travelImplausible_def commit_def Let_def recordIfAbsent_def split_beta)

text \<open>
  Confidences 3/2 and -1/10 are faults; the example submission with confidence 1, what
  clamping 3/2 would give, is not.
\<close>

theorem malformed_confidence_is_fault_witness:
  "submitDiscovery exampleConfig exampleCatalog 1000 (exampleSubmission\<lparr>confidence := 3 / 2\<rparr>) emptyCore
     = (Failed malformed_input, emptyCore) \<and>
   submitDiscovery exampleConfig exampleCatalog 1000 (exampleSubmission\<lparr>confidence := - 1 / 10\<rparr>) afterFirst
     = (Failed malformed_input, afterFirst) \<and>
   fst (submitDiscovery exampleConfig exampleCatalog 1000 (exampleSubmission\<lparr>confidence := 1\<rparr>) emptyCore)
     \<noteq> Failed malformed_input"
  using malformed_confidence_is_fault [of "exampleSubmission\<lparr>confidence := 3 / 2\<rparr>"
      exampleCatalog exampleConfig 1000 emptyCore]
    malformed_confidence_is_fault [of "exampleSubmission\<lparr>confidence := - 1 / 10\<rparr>"
      exampleCatalog exampleConfig 1000 afterFirst]
    example_clamped
  by simp

subsection \<open>Levels\<close>

lemma levelOf_mono: "xp1 \<le> xp2 \<Longrightarrow> levelOf xp1 \<le> levelOf xp2"
  unfolding levelOf_def by (intro add_right_mono floor_mono) (simp add: divide_right_mono)

lemma applyReward_level:
  "level (snd (applyReward cfg up lm isFirst ts)) = levelOf (totalXp (snd (applyReward cfg up lm isFirst ts)))"
  by (simp add: applyReward_def Let_def)

lemma commit_levelsDerived:
  "levelsDerived st \<Longrightarrow> levelsDerived (snd (commit cfg lm now sub st))"
  by (auto simp: commit_def Let_def recordIfAbsent_def split_beta levelsDerived_def applyReward_level
      split: option.splits)

lemma submit_levelsDerived:
  "levelsDerived st \<Longrightarrow> levelsDerived (snd (submitDiscovery cfg catalog now sub st))"
  by (auto simp: submitDiscovery_def split_beta commit_levelsDerived split: option.splits)

lemma runAll_levelsDerived:
  "levelsDerived st \<Longrightarrow> levelsDerived (runAll cfg catalog st evs)"
  by (induction evs arbitrary: st) (auto simp: submit_levelsDerived)

text \<open>
  Claim C4. The level is a monotonic function of the total XP; the reward calculator
  sets the level of the progress from the new total, whatever level was stored; and
  after every sequence of submissions the stored level of every user is the level of the
  stored total.
\<close>

theorem level_monotonic_and_derived:
  "(xp1 \<le> xp2 \<longrightarrow> levelOf xp1 \<le> levelOf xp2) \<and>
   level (snd (applyReward cfg up lm isFirst ts)) =
     levelOf (totalXp (snd (applyReward cfg up lm isFirst ts))) \<and>
   (progress (runAll cfg catalog emptyCore evs) u = Some p \<longrightarrow> level p = levelOf (totalXp p))"
proof -
  have "levelsDerived emptyCore" by (simp add: levelsDerived_def emptyCore_def)
  then have "levelsDerived (runAll cfg catalog emptyCore evs)" by (rule runAll_levelsDerived)
  then show ?thesis
    using levelOf_mono[of xp1 xp2] applyReward_level[of cfg up lm isFirst ts]
    by (auto simp: levelsDerived_def)
qed

theorem level_monotonic_and_derived_witness:
  "levelOf 100 \<le> levelOf 2500 \<and>
   progress (runAll exampleConfig exampleCatalog emptyCore [(1000, exampleSubmission)]) ''ada'' =
     Some \<lparr>totalXp = 100, level = 2, badges = [7], streakDays = 1, lastDiscoveryDate = Some 1000\<rparr> \<and>
   levelOf 100 = 2"
proof -
  have p: "progress (runAll exampleConfig exampleCatalog emptyCore [(1000, exampleSubmission)]) ''ada'' =
     Some \<lparr>totalXp = 100, level = 2, badges = [7], streakDays = 1, lastDiscoveryDate = Some 1000\<rparr>"
    by (simp add: example_first afterFirst_def)
  from level_monotonic_and_derived [of 100 2500 exampleConfig freshProgress exampleLandmark True 1000
      exampleCatalog "[(1000, exampleSubmission)]" "''ada''"
      "\<lparr>totalXp = 100, level = 2, badges = [7], streakDays = 1, lastDiscoveryDate = Some 1000\<rparr>"] p
  show ?thesis by simp
qed

subsection \<open>Cooldown\<close>







subsection \<open>Replay of a completed submission\<close>



end
